theory Spec2Isabelle
  imports Main "HOL-Library.AList"
begin

section \<open>Data model of the HTML page detector\<close>

text \<open>
  The development embeds \<^verbatim>\<open>html_page_detector.py\<close>: the structure extractor
  (\<^verbatim>\<open>extract_xpath_structure\<close> and its helpers), the diff engine
  (\<^verbatim>\<open>compare_structures\<close> and the four \<^verbatim>\<open>_compare_*\<close> methods), the SQLite
  store (\<^verbatim>\<open>DatabaseManager\<close>) and the scan driver (\<^verbatim>\<open>scan_url\<close>).

  A Python \<^verbatim>\<open>dict\<close> with string keys is an association list: iteration runs over the
  keys in insertion order, \<^verbatim>\<open>k in d\<close> and \<^verbatim>\<open>d.get(k)\<close> are \<open>map_of\<close>, and
  \<^verbatim>\<open>d[k] = v\<close> is \<open>AList.update\<close> (an existing key keeps its place).
\<close>

type_synonym 'v dict = "(string \<times> 'v) list"

definition keys :: "'v dict \<Rightarrow> string list" where
  "keys d = map fst d"

text \<open>\<^verbatim>\<open>d.get(k, default)\<close>.\<close>

definition get_or :: "'v dict \<Rightarrow> string \<Rightarrow> 'v \<Rightarrow> 'v" where
  "get_or d k dflt = (case map_of d k of None \<Rightarrow> dflt | Some v \<Rightarrow> v)"

text \<open>
  \<^verbatim>\<open>set(a.keys()) | set(b.keys())\<close>, then iterated. Python walks a set in the order of
  its hash table, which the source does not control; the model enumerates the keys of the
  first operand and then the unseen keys of the second. Every statement below about the
  changes of an attribute or form comparison is about the set of changes, or about there
  being none, so it does not depend on this choice.
\<close>

definition key_union :: "string list \<Rightarrow> string list \<Rightarrow> string list" where
  "key_union a b = remdups (a @ b)"

text \<open>The snapshots stored per path (the values of the four inner dictionaries).\<close>

record element_snapshot =
  el_tag :: string
  el_text :: string
  el_tail :: string

record table_snapshot =
  headers :: "string list"
  row_count :: nat
  column_count :: nat

record input_info =
  in_type :: string
  in_name :: string
  in_id :: string
  in_class :: string

record form_snapshot =
  form_action :: string
  form_method :: string
  inputs :: "input_info list"

text \<open>
  The structure dictionary. \<^verbatim>\<open>extract_xpath_structure\<close> returns either a dictionary
  with the four keys \<^verbatim>\<open>elements\<close>, \<^verbatim>\<open>attributes\<close>, \<^verbatim>\<open>tables\<close>, \<^verbatim>\<open>forms\<close>, or the
  empty dictionary \<^verbatim>\<open>{}\<close>; a field is \<open>None\<close> when its key is absent.
\<close>

record page_structure =
  elements :: "element_snapshot dict option"
  attributes :: "string dict dict option"
  tables :: "table_snapshot dict option"
  forms :: "form_snapshot dict option"

definition empty_dict :: page_structure where
  "empty_dict = \<lparr>elements = None, attributes = None, tables = None, forms = None\<rparr>"

text \<open>\<^verbatim>\<open>structure.get('elements', {})\<close> and its three siblings.\<close>

definition get_elements :: "page_structure \<Rightarrow> element_snapshot dict" where
  "get_elements s = (case elements s of None \<Rightarrow> [] | Some d \<Rightarrow> d)"

definition get_attributes :: "page_structure \<Rightarrow> string dict dict" where
  "get_attributes s = (case attributes s of None \<Rightarrow> [] | Some d \<Rightarrow> d)"

definition get_tables :: "page_structure \<Rightarrow> table_snapshot dict" where
  "get_tables s = (case tables s of None \<Rightarrow> [] | Some d \<Rightarrow> d)"

definition get_forms :: "page_structure \<Rightarrow> form_snapshot dict" where
  "get_forms s = (case forms s of None \<Rightarrow> [] | Some d \<Rightarrow> d)"

text \<open>
  The thirteen literals that \<^verbatim>\<open>change_type\<close> takes in the source, one constructor
  per string literal.
\<close>

datatype change_type =
    element_removed | element_added | element_text_changed
  | attribute_added | attribute_removed | attribute_modified
  | table_removed | table_added | table_headers_changed | table_columns_changed
  | form_added | form_removed | form_inputs_changed

text \<open>
  \<^verbatim>\<open>old_value\<close> and \<^verbatim>\<open>new_value\<close> are optional strings. Where the source stores a
  string it already has (an element text, an attribute value) the model has \<open>Lit\<close>;
  where it stores \<^verbatim>\<open>str(x)\<close> of a dictionary, a list or an integer, the model keeps
  \<open>x\<close> under the constructor of its kind, standing for the text Python prints for it.
\<close>

datatype pystr =
    Lit string
  | StrElement element_snapshot
  | StrTable table_snapshot
  | StrHeaders "string list"
  | StrCount nat
  | StrForm form_snapshot
  | StrInputs "input_info list"

record ChangeDetails =
  change_type :: change_type
  xpath :: string
  old_value :: "pystr option"
  new_value :: "pystr option"
  element_type :: string
  timestamp :: nat

section \<open>The diff engine\<close>

text \<open>
  \<^verbatim>\<open>_compare_elements\<close>: three loops, removed, added, text changed. Inside the first
  loop \<^verbatim>\<open>old_elements[xpath]\<close> is the value of a key being iterated, so the lookup
  cannot miss. A snapshot written by the extractor has its three keys, so
  \<^verbatim>\<open>.get('tag', 'unknown')\<close> is its tag and \<^verbatim>\<open>.get('text')\<close> its text.
\<close>

definition compare_elements ::
  "element_snapshot dict \<Rightarrow> element_snapshot dict \<Rightarrow> nat \<Rightarrow> ChangeDetails list" where
  "compare_elements old_elements new_elements ts =
     concat (map (\<lambda>xp.
       case (map_of new_elements xp, map_of old_elements xp) of
         (None, Some old_elem) \<Rightarrow>
           [\<lparr>change_type = element_removed, xpath = xp,
             old_value = Some (StrElement old_elem), new_value = None,
             element_type = el_tag old_elem, timestamp = ts\<rparr>]
       | _ \<Rightarrow> []) (keys old_elements))
     @ concat (map (\<lambda>xp.
       case (map_of old_elements xp, map_of new_elements xp) of
         (None, Some new_elem) \<Rightarrow>
           [\<lparr>change_type = element_added, xpath = xp,
             old_value = None, new_value = Some (StrElement new_elem),
             element_type = el_tag new_elem, timestamp = ts\<rparr>]
       | _ \<Rightarrow> []) (keys new_elements))
     @ concat (map (\<lambda>xp.
       case (map_of old_elements xp, map_of new_elements xp) of
         (Some old_elem, Some new_elem) \<Rightarrow>
           if el_text old_elem \<noteq> el_text new_elem then
             [\<lparr>change_type = element_text_changed, xpath = xp,
               old_value = Some (Lit (el_text old_elem)),
               new_value = Some (Lit (el_text new_elem)),
               element_type = el_tag old_elem, timestamp = ts\<rparr>]
           else []
       | _ \<Rightarrow> []) (keys old_elements))"

text \<open>
  \<^verbatim>\<open>_compare_attributes\<close>: for every path of either side and every attribute name of
  either side, one change when the two optional values differ.
\<close>

definition attribute_change ::
  "string \<Rightarrow> string dict \<Rightarrow> string dict \<Rightarrow> nat \<Rightarrow> string \<Rightarrow> ChangeDetails list" where
  "attribute_change xp old_attr new_attr ts attr_name =
     (let old_v = map_of old_attr attr_name;
          new_v = map_of new_attr attr_name
      in if old_v \<noteq> new_v then
           [\<lparr>change_type =
                (if old_v = None then attribute_added
                 else if new_v = None then attribute_removed
                 else attribute_modified),
             xpath = xp @ ''/@'' @ attr_name,
             old_value = map_option Lit old_v,
             new_value = map_option Lit new_v,
             element_type = ''attribute'', timestamp = ts\<rparr>]
         else [])"

definition compare_attributes ::
  "string dict dict \<Rightarrow> string dict dict \<Rightarrow> nat \<Rightarrow> ChangeDetails list" where
  "compare_attributes old_attrs new_attrs ts =
     concat (map (\<lambda>xp.
       let old_attr = get_or old_attrs xp [];
           new_attr = get_or new_attrs xp []
       in concat (map (attribute_change xp old_attr new_attr ts)
                      (key_union (keys old_attr) (keys new_attr))))
       (key_union (keys old_attrs) (keys new_attrs)))"

text \<open>
  \<^verbatim>\<open>_compare_tables\<close>: removed, added, then for the common paths the headers and the
  column count. \<^verbatim>\<open>row_count\<close> is not read.
\<close>

definition compare_tables ::
  "table_snapshot dict \<Rightarrow> table_snapshot dict \<Rightarrow> nat \<Rightarrow> ChangeDetails list" where
  "compare_tables old_tables new_tables ts =
     concat (map (\<lambda>xp.
       case (map_of new_tables xp, map_of old_tables xp) of
         (None, Some old_table) \<Rightarrow>
           [\<lparr>change_type = table_removed, xpath = xp,
             old_value = Some (StrTable old_table), new_value = None,
             element_type = ''table'', timestamp = ts\<rparr>]
       | _ \<Rightarrow> []) (keys old_tables))
     @ concat (map (\<lambda>xp.
       case (map_of old_tables xp, map_of new_tables xp) of
         (None, Some new_table) \<Rightarrow>
           [\<lparr>change_type = table_added, xpath = xp,
             old_value = None, new_value = Some (StrTable new_table),
             element_type = ''table'', timestamp = ts\<rparr>]
       | _ \<Rightarrow> []) (keys new_tables))
     @ concat (map (\<lambda>xp.
       case (map_of old_tables xp, map_of new_tables xp) of
         (Some old_table, Some new_table) \<Rightarrow>
           (if headers old_table \<noteq> headers new_table then
              [\<lparr>change_type = table_headers_changed, xpath = xp,
                old_value = Some (StrHeaders (headers old_table)),
                new_value = Some (StrHeaders (headers new_table)),
                element_type = ''table'', timestamp = ts\<rparr>]
            else [])
           @ (if column_count old_table \<noteq> column_count new_table then
              [\<lparr>change_type = table_columns_changed, xpath = xp,
                old_value = Some (StrCount (column_count old_table)),
                new_value = Some (StrCount (column_count new_table)),
                element_type = ''table'', timestamp = ts\<rparr>]
            else [])
       | _ \<Rightarrow> []) (keys old_tables))"

text \<open>
  \<^verbatim>\<open>_compare_forms\<close>: one pass over the paths of either side. On a path that only the
  old side has, the first test fails and the second holds. A path of the union is a key
  of one side at least, so the two lookups do not both miss.
\<close>

definition form_change ::
  "form_snapshot dict \<Rightarrow> form_snapshot dict \<Rightarrow> nat \<Rightarrow> string \<Rightarrow> ChangeDetails list" where
  "form_change old_forms new_forms ts xp =
     (case map_of old_forms xp of
        None \<Rightarrow>
          (case map_of new_forms xp of
             None \<Rightarrow> []
           | Some new_form \<Rightarrow>
               [\<lparr>change_type = form_added, xpath = xp,
                 old_value = None, new_value = Some (StrForm new_form),
                 element_type = ''form'', timestamp = ts\<rparr>])
      | Some old_form \<Rightarrow>
          (case map_of new_forms xp of
             None \<Rightarrow>
               [\<lparr>change_type = form_removed, xpath = xp,
                 old_value = Some (StrForm old_form), new_value = None,
                 element_type = ''form'', timestamp = ts\<rparr>]
           | Some new_form \<Rightarrow>
               (let old_inputs = inputs old_form; new_inputs = inputs new_form
                in if length old_inputs \<noteq> length new_inputs \<or> old_inputs \<noteq> new_inputs then
                     [\<lparr>change_type = form_inputs_changed, xpath = xp,
                       old_value = Some (StrInputs old_inputs),
                       new_value = Some (StrInputs new_inputs),
                       element_type = ''form'', timestamp = ts\<rparr>]
                   else [])))"

definition compare_forms ::
  "form_snapshot dict \<Rightarrow> form_snapshot dict \<Rightarrow> nat \<Rightarrow> ChangeDetails list" where
  "compare_forms old_forms new_forms ts =
     concat (map (form_change old_forms new_forms ts)
                 (key_union (keys old_forms) (keys new_forms)))"

text \<open>
  \<^verbatim>\<open>compare_structures\<close>: the four comparisons in order, all stamped with the one
  \<^verbatim>\<open>datetime.now()\<close> read at entry (the argument \<open>ts\<close>).
\<close>

definition compare_structures :: "nat \<Rightarrow> page_structure \<Rightarrow> page_structure \<Rightarrow> ChangeDetails list" where
  "compare_structures ts old_structure new_structure =
     compare_elements (get_elements old_structure) (get_elements new_structure) ts
     @ compare_attributes (get_attributes old_structure) (get_attributes new_structure) ts
     @ compare_tables (get_tables old_structure) (get_tables new_structure) ts
     @ compare_forms (get_forms old_structure) (get_forms new_structure) ts"

section \<open>The parsed document\<close>

text \<open>
  The tree that \<^verbatim>\<open>lxml.html.fromstring\<close> returns, restricted to element nodes: a
  tag, the attributes in document order, the optional text before the first child, the
  optional tail text after the element, and the children.
\<close>

datatype node =
  Node (n_tag: string) (n_attrib: "string dict") (n_text: "string option")
       (n_tail: "string option") (n_children: "node list")

text \<open>The proper descendants of an element in document order (the axis of \<^verbatim>\<open>.//\<close>).\<close>

fun descendants :: "node \<Rightarrow> node list" where
  "descendants (Node t a tx tail cs) = concat (map (\<lambda>c. c # descendants c) cs)"

text \<open>\<^verbatim>\<open>element.xpath('.//a | .//b')\<close>: the descendants whose tag is one of those named.\<close>

definition xpath_descendants :: "string list \<Rightarrow> node \<Rightarrow> node list" where
  "xpath_descendants tags element = filter (\<lambda>n. n_tag n \<in> set tags) (descendants element)"

text \<open>
  \<^verbatim>\<open>table.xpath('.//th | .//thead//td')\<close>: in document order, every \<^verbatim>\<open>th\<close> below the
  table and every \<^verbatim>\<open>td\<close> that has a \<^verbatim>\<open>thead\<close> between the table and itself. The
  flag says whether such a \<^verbatim>\<open>thead\<close> has been passed.
\<close>

fun header_cells :: "bool \<Rightarrow> node \<Rightarrow> node list" where
  "header_cells in_thead (Node t a tx tail cs) =
     concat (map (\<lambda>c.
       (if n_tag c = ''th'' \<or> (n_tag c = ''td'' \<and> in_thead) then [c] else [])
       @ header_cells (in_thead \<or> n_tag c = ''thead'') c) cs)"

text \<open>\<^verbatim>\<open>x or ''\<close> for an optional string.\<close>

definition or_empty :: "string option \<Rightarrow> string" where
  "or_empty x = (case x of None \<Rightarrow> [] | Some s \<Rightarrow> s)"

text \<open>
  \<^verbatim>\<open>element.text_content()\<close>: the text of the element and of all its descendants,
  with the tails of the descendants, in document order.
\<close>

fun text_content :: "node \<Rightarrow> string" where
  "text_content (Node t a tx tail cs) =
     or_empty tx @ concat (map (\<lambda>c. text_content c @ or_empty (n_tail c)) cs)"

text \<open>
  \<^verbatim>\<open>str.strip()\<close>: leading and trailing whitespace removed. The whitespace characters
  are those for which \<^verbatim>\<open>str.isspace\<close> holds among the first 256 code points.
\<close>

definition is_space :: "char \<Rightarrow> bool" where
  "is_space c = ((of_char c :: nat) \<in> {9, 10, 11, 12, 13, 28, 29, 30, 31, 32, 133, 160})"

definition strip :: "string \<Rightarrow> string" where
  "strip s = rev (dropWhile is_space (rev (dropWhile is_space s)))"

section \<open>The structure extractor\<close>

text \<open>
  \<^verbatim>\<open>_extract_table_structure\<close>. The three XPath queries and \<^verbatim>\<open>text_content\<close> do not
  raise on an element tree, so the \<^verbatim>\<open>except\<close> branch (which would leave the fields
  assigned so far and the defaults for the rest) is not reached.
\<close>

definition extract_table_structure :: "node \<Rightarrow> table_snapshot" where
  "extract_table_structure table =
     (let hdrs = header_cells False table;
          rows = xpath_descendants [''tr''] table
      in \<lparr>headers = filter (\<lambda>s. s \<noteq> []) (map (\<lambda>h. strip (text_content h)) hdrs),
          row_count = length rows,
          column_count =
            (case rows of
               [] \<Rightarrow> 0
             | first_row # _ \<Rightarrow> length (xpath_descendants [''td'', ''th''] first_row))\<rparr>)"

text \<open>\<^verbatim>\<open>_extract_form_structure\<close>.\<close>

definition extract_form_structure :: "node \<Rightarrow> form_snapshot" where
  "extract_form_structure form =
     \<lparr>form_action = get_or (n_attrib form) ''action'' [],
      form_method = get_or (n_attrib form) ''method'' [],
      inputs = map (\<lambda>inp.
          \<lparr>in_type = get_or (n_attrib inp) ''type'' (n_tag inp),
           in_name = get_or (n_attrib inp) ''name'' [],
           in_id = get_or (n_attrib inp) ''id'' [],
           in_class = get_or (n_attrib inp) ''class'' []\<rparr>)
        (xpath_descendants [''input'', ''select'', ''textarea''] form)\<rparr>"

text \<open>
  \<^verbatim>\<open>doc.iter()\<close>: the element and its descendants in document order. Two elements
  with equal content are still two elements, so each comes with its position, the list
  of child indices that leads to it from the root.
\<close>

fun iter_node :: "nat list \<Rightarrow> node \<Rightarrow> (nat list \<times> node) list"
  and iter_children :: "nat list \<Rightarrow> nat \<Rightarrow> node list \<Rightarrow> (nat list \<times> node) list" where
  "iter_node pos (Node t a tx tail cs) = (pos, Node t a tx tail cs) # iter_children pos 0 cs"
| "iter_children pos i [] = []"
| "iter_children pos i (c # cs) = iter_node (pos @ [i]) c @ iter_children pos (Suc i) cs"

text \<open>
  What lies outside the program: the HTTP session, the digest, the lxml parser and its
  \<^verbatim>\<open>getpath\<close>, the JSON codec, the clock and the state of the database file. An
  operation that can raise returns \<open>None\<close> where it raises:
  \<^item> \<open>session_get\<close>: \<^verbatim>\<open>session.get(url, timeout=30)\<close>, \<^verbatim>\<open>raise_for_status()\<close> and
    \<^verbatim>\<open>response.text\<close>; \<open>None\<close> is a \<^verbatim>\<open>RequestException\<close>;
  \<^item> \<open>md5_hexdigest\<close>: \<^verbatim>\<open>hashlib.md5(s.encode()).hexdigest()\<close>;
  \<^item> \<open>html_fromstring\<close>: \<^verbatim>\<open>html.fromstring\<close>; \<open>None\<close> is any exception it raises;
  \<^item> \<open>getpath\<close>: \<^verbatim>\<open>element.getroottree().getpath(element)\<close> for the element at a
    position below a root;
  \<^item> \<open>json_dumps\<close>: \<^verbatim>\<open>json.dumps\<close> of a structure; \<open>None\<close> is the
    \<^verbatim>\<open>TypeError\<close> it raises on a value that JSON cannot hold (lxml gives a comment or
    a processing instruction a function for its tag, nodes that the tree above leaves out);
  \<^item> \<open>json_loads\<close>: \<^verbatim>\<open>json.loads\<close> of a stored text; \<open>None\<close> is a
    \<^verbatim>\<open>JSONDecodeError\<close>, and a text that decodes gives a \<open>decoded\<close> value;
  \<^item> \<open>datetime_now\<close>: the time \<^verbatim>\<open>compare_structures\<close> reads;
  \<^item> \<open>current_timestamp\<close>: SQLite's \<^verbatim>\<open>CURRENT_TIMESTAMP\<close> at the insertion of the
    scan record, in whole seconds;
  \<^item> \<open>db_writable\<close>: whether the insertions and the commit of
    \<^verbatim>\<open>save_scan_result\<close> go through; when it is false they raise an
    \<^verbatim>\<open>sqlite3.Error\<close>.
\<close>

text \<open>
  What \<^verbatim>\<open>json.loads\<close> returns for a text that decodes: a dictionary, read as a
  structure (a key it lacks is a missing field), or a value that is no dictionary
  (\<^verbatim>\<open>null\<close>, a list, a number, a string, a boolean).
\<close>

datatype decoded = JsonDict page_structure | JsonOther

record env =
  session_get :: "string \<Rightarrow> string option"
  md5_hexdigest :: "string \<Rightarrow> string"
  html_fromstring :: "string \<Rightarrow> node option"
  getpath :: "node \<Rightarrow> nat list \<Rightarrow> string option"
  json_dumps :: "page_structure \<Rightarrow> string option"
  json_loads :: "string \<Rightarrow> decoded option"
  datetime_now :: nat
  current_timestamp :: nat
  db_writable :: bool

text \<open>\<^verbatim>\<open>_get_element_xpath\<close>: the path, or the empty string when \<^verbatim>\<open>getpath\<close> raises.\<close>

definition get_element_xpath :: "env \<Rightarrow> node \<Rightarrow> nat list \<Rightarrow> string" where
  "get_element_xpath env root pos = (case getpath env root pos of None \<Rightarrow> [] | Some p \<Rightarrow> p)"

text \<open>
  \<^verbatim>\<open>extract_xpath_structure\<close>. The whole body stands in a \<^verbatim>\<open>try\<close> whose handler
  catches every exception, logs it and returns \<^verbatim>\<open>{}\<close>; the parser is the one call of
  the body that can raise. \<^verbatim>\<open>doc.xpath('//table')\<close> selects the \<^verbatim>\<open>table\<close> elements of
  the document in document order.
\<close>

definition extract_xpath_structure :: "env \<Rightarrow> string \<Rightarrow> page_structure" where
  "extract_xpath_structure env html_content =
     (case html_fromstring env html_content of
        None \<Rightarrow> empty_dict
      | Some doc \<Rightarrow>
          (let nodes = iter_node [] doc;
               path = get_element_xpath env doc
           in \<lparr>elements = Some (fold (\<lambda>(pos, element) d.
                    if n_tag element \<noteq> [] then
                      AList.update (path pos)
                        \<lparr>el_tag = n_tag element,
                         el_text = take 100 (strip (or_empty (n_text element))),
                         el_tail = take 100 (strip (or_empty (n_tail element)))\<rparr> d
                    else d) nodes []),
                attributes = Some (fold (\<lambda>(pos, element) d.
                    if n_tag element \<noteq> [] \<and> n_attrib element \<noteq> [] then
                      AList.update (path pos) (n_attrib element) d
                    else d) nodes []),
                tables = Some (fold (\<lambda>(pos, table) d.
                    AList.update (path pos) (extract_table_structure table) d)
                    (filter (\<lambda>(pos, n). n_tag n = ''table'') nodes) []),
                forms = Some (fold (\<lambda>(pos, form) d.
                    AList.update (path pos) (extract_form_structure form) d)
                    (filter (\<lambda>(pos, n). n_tag n = ''form'') nodes) [])\<rparr>))"

section \<open>The store, the notifier and the scan\<close>

text \<open>
  The two tables of \<^verbatim>\<open>DatabaseManager\<close>, rows in insertion order. \<^verbatim>\<open>scan_time\<close>
  defaults to \<^verbatim>\<open>CURRENT_TIMESTAMP\<close>, the second of the insertion; two rows written
  within one second have the same \<^verbatim>\<open>scan_time\<close>. \<^verbatim>\<open>detection_time\<close> is never read
  and is not kept. No row is ever deleted, so the \<^verbatim>\<open>AUTOINCREMENT\<close> identifier of a
  new row is the number of rows plus one.
\<close>

record scan_row =
  sr_id :: nat
  sr_url :: string
  sr_scan_time :: nat
  sr_html_hash :: string
  sr_xpath_structure :: string
  sr_changes_detected :: nat

record change_row =
  cr_scan_id :: nat
  cr_change_type :: change_type
  cr_xpath :: string
  cr_old_value :: "pystr option"
  cr_new_value :: "pystr option"
  cr_element_type :: string

text \<open>
  The calls a scan makes to its collaborators, in the order it makes them: the fetch, the
  extraction, the lookup of the last scan, the diff, each alert (recipient, URL, changes,
  diff text) and the committed write of the scan record.
\<close>

datatype event =
    Fetched string
  | Extracted
  | LookedUp string
  | Compared
  | Alerted string string "ChangeDetails list" string
  | Saved string

record world =
  scan_history :: "scan_row list"
  detected_changes :: "change_row list"
  calls :: "event list"

definition log_call :: "event \<Rightarrow> world \<Rightarrow> world" where
  "log_call e w = w\<lparr>calls := calls w @ [e]\<rparr>"

text \<open>
  The exceptions that leave \<^verbatim>\<open>scan_url\<close>: the stored structure decoded to a value
  without a \<^verbatim>\<open>get\<close> method, the current structure could not be serialized, or the
  store could not be written.
\<close>

datatype error = AttributeError | SerializeError | StoreError

text \<open>
  \<^verbatim>\<open>save_scan_result\<close>: one row of \<^verbatim>\<open>scan_history\<close> with \<^verbatim>\<open>len(changes)\<close>, one row
  of \<^verbatim>\<open>detected_changes\<close> per change, then the commit. When the database cannot be
  written the exception leaves the method before the commit and no row is kept.
\<close>

definition save_scan_result ::
  "env \<Rightarrow> string \<Rightarrow> string \<Rightarrow> string \<Rightarrow> ChangeDetails list \<Rightarrow> world \<Rightarrow> error + (nat \<times> world)" where
  "save_scan_result env url html_hash xpath_structure changes w =
     (if \<not> db_writable env then Inl StoreError
      else
        (let scan_id = Suc (length (scan_history w))
         in Inr (scan_id,
              log_call (Saved url)
                (w\<lparr>scan_history := scan_history w @
                     [\<lparr>sr_id = scan_id, sr_url = url,
                       sr_scan_time = current_timestamp env, sr_html_hash = html_hash,
                       sr_xpath_structure = xpath_structure,
                       sr_changes_detected = length changes\<rparr>],
                   detected_changes := detected_changes w @
                     map (\<lambda>change.
                       \<lparr>cr_scan_id = scan_id, cr_change_type = change_type change,
                        cr_xpath = xpath change, cr_old_value = old_value change,
                        cr_new_value = new_value change,
                        cr_element_type = element_type change\<rparr>) changes\<rparr>))))"

text \<open>
  \<^verbatim>\<open>ORDER BY scan_time DESC LIMIT 1\<close> over rows in insertion order: the row with the
  greatest \<^verbatim>\<open>scan_time\<close>, and among the rows of that second the one inserted first,
  which is the row SQLite returns on a tie. \<open>best\<close> is the choice among the rows
  passed so far; a later row replaces it only with a greater time.
\<close>

fun order_by_scan_time_desc_limit_1 :: "scan_row \<Rightarrow> scan_row list \<Rightarrow> scan_row" where
  "order_by_scan_time_desc_limit_1 best [] = best"
| "order_by_scan_time_desc_limit_1 best (r # rs) =
     order_by_scan_time_desc_limit_1 (if sr_scan_time best < sr_scan_time r then r else best) rs"

text \<open>
  \<^verbatim>\<open>get_last_scan\<close>: hash and serialized structure of the row that the query selects
  among the rows of the URL, or \<open>None\<close> when the URL has no row.
\<close>

definition get_last_scan :: "world \<Rightarrow> string \<Rightarrow> (string \<times> string) option" where
  "get_last_scan w url =
     (case filter (\<lambda>r. sr_url r = url) (scan_history w) of
        [] \<Rightarrow> None
      | r # rs \<Rightarrow>
          (let result = order_by_scan_time_desc_limit_1 r rs
           in Some (sr_html_hash result, sr_xpath_structure result)))"

text \<open>
  \<^verbatim>\<open>send_alert\<close> builds and sends one mail inside a \<^verbatim>\<open>try\<close> that catches every
  exception, so it always returns; the model records the call. \<open>send_alerts\<close> is the
  loop over the recipients.
\<close>

definition send_alert :: "string \<Rightarrow> string \<Rightarrow> ChangeDetails list \<Rightarrow> string \<Rightarrow> world \<Rightarrow> world" where
  "send_alert recipient url changes html_diff w =
     log_call (Alerted recipient url changes html_diff) w"

fun send_alerts :: "string list \<Rightarrow> string \<Rightarrow> ChangeDetails list \<Rightarrow> string \<Rightarrow> world \<Rightarrow> world" where
  "send_alerts [] url changes html_diff w = w"
| "send_alerts (recipient # rest) url changes html_diff w =
     send_alerts rest url changes html_diff (send_alert recipient url changes html_diff w)"

text \<open>
  The configuration keys \<^verbatim>\<open>scan_url\<close> reads. The notifier object exists exactly when
  \<^verbatim>\<open>email_enabled\<close> is set; a missing \<^verbatim>\<open>recipients\<close> key is the empty list.
\<close>

record config =
  email_enabled :: bool
  recipients :: "string list"
  generate_diff :: bool

text \<open>\<^verbatim>\<open>fetch_page\<close>: the response text, or \<open>None\<close> after a \<^verbatim>\<open>RequestException\<close>.\<close>

definition fetch_page :: "env \<Rightarrow> string \<Rightarrow> string option" where
  "fetch_page env url = session_get env url"

text \<open>
  \<^verbatim>\<open>scan_url\<close>. \<^verbatim>\<open>if not current_html\<close> holds for \<^verbatim>\<open>None\<close> and for the empty
  string. \<^verbatim>\<open>changes\<close> is assigned only after \<^verbatim>\<open>json.loads\<close> has returned, so it is
  still empty in the \<^verbatim>\<open>JSONDecodeError\<close> handler. That handler catches nothing
  else: when the stored text decodes to a value that is no dictionary,
  \<^verbatim>\<open>compare_structures\<close> is called and its first \<^verbatim>\<open>old_structure.get\<close> raises an
  \<^verbatim>\<open>AttributeError\<close> that leaves \<^verbatim>\<open>scan_url\<close>. \<^verbatim>\<open>json.dumps(current_structure)\<close>
  is an argument of the call of \<^verbatim>\<open>save_scan_result\<close>, so it is evaluated after the
  alerts and before the write. The result is \<open>Inl\<close> when an exception leaves the function
  and \<open>Inr\<close> of the returned boolean otherwise.
\<close>

definition scan_url :: "env \<Rightarrow> config \<Rightarrow> string \<Rightarrow> world \<Rightarrow> (error + bool) \<times> world" where
  "scan_url env cfg url w0 =
     (let w1 = log_call (Fetched url) w0 in
      case fetch_page env url of
        None \<Rightarrow> (Inr False, w1)
      | Some current_html \<Rightarrow>
          if current_html = [] then (Inr False, w1)
          else
            (let current_hash = md5_hexdigest env current_html;
                 current_structure = extract_xpath_structure env current_html;
                 w2 = log_call Extracted w1;
                 last_scan = get_last_scan w2 url;
                 w3 = log_call (LookedUp url) w2;
                 (raised, changes, w4) =
                   (case last_scan of
                      None \<Rightarrow> (None, [], w3)
                    | Some (last_hash, last_structure_json) \<Rightarrow>
                        if current_hash \<noteq> last_hash then
                          (case json_loads env last_structure_json of
                             None \<Rightarrow> (None, [], w3)
                           | Some JsonOther \<Rightarrow> (Some AttributeError, [], log_call Compared w3)
                           | Some (JsonDict last_structure) \<Rightarrow>
                               (let changes = compare_structures (datetime_now env)
                                                last_structure current_structure;
                                    w_cmp = log_call Compared w3
                                in if changes \<noteq> [] then
                                     (let html_diff =
                                            (if generate_diff cfg then
                                               ''HTML diff generation requires storing full HTML content''
                                             else [])
                                      in if email_enabled cfg \<and> recipients cfg \<noteq> [] then
                                           (None, changes,
                                            send_alerts (recipients cfg) url changes html_diff w_cmp)
                                         else (None, changes, w_cmp))
                                   else (None, changes, w_cmp)))
                        else (None, [], w3))
             in case raised of
                  Some e \<Rightarrow> (Inl e, w4)
                | None \<Rightarrow>
                    (case json_dumps env current_structure of
                       None \<Rightarrow> (Inl SerializeError, w4)
                     | Some xpath_structure \<Rightarrow>
                         (case save_scan_result env url current_hash xpath_structure changes w4 of
                            Inl e \<Rightarrow> (Inl e, w4)
                          | Inr (scan_id, w5) \<Rightarrow> (Inr (changes \<noteq> []), w5)))))"

section \<open>Notions used to state the properties\<close>

text \<open>
  Exchanging the two sides of a change: an addition becomes the removal of the same kind
  and back, and the old and the new value change places.
\<close>

fun swap_type :: "change_type \<Rightarrow> change_type" where
  "swap_type element_removed = element_added"
| "swap_type element_added = element_removed"
| "swap_type attribute_added = attribute_removed"
| "swap_type attribute_removed = attribute_added"
| "swap_type table_removed = table_added"
| "swap_type table_added = table_removed"
| "swap_type form_added = form_removed"
| "swap_type form_removed = form_added"
| "swap_type t = t"

definition swap_sides :: "ChangeDetails \<Rightarrow> ChangeDetails" where
  "swap_sides c = c\<lparr>change_type := swap_type (change_type c),
                     old_value := new_value c, new_value := old_value c\<rparr>"

text \<open>The same change detected at another time.\<close>

definition restamp :: "nat \<Rightarrow> ChangeDetails \<Rightarrow> ChangeDetails" where
  "restamp ts c = c\<lparr>timestamp := ts\<rparr>"

definition is_added :: "ChangeDetails \<Rightarrow> bool" where
  "is_added c =
     (change_type c \<in> {element_added, attribute_added, table_added, form_added})"

definition is_removed :: "ChangeDetails \<Rightarrow> bool" where
  "is_removed c =
     (change_type c \<in> {element_removed, attribute_removed, table_removed, form_removed})"

definition is_table_change :: "ChangeDetails \<Rightarrow> bool" where
  "is_table_change c =
     (change_type c \<in> {table_removed, table_added, table_headers_changed, table_columns_changed})"

text \<open>
  Counting by recursion over the tree: the number of elements with one of the given tags
  at any depth below an element, and the first such element of a forest in document
  order.
\<close>

fun count_below :: "string list \<Rightarrow> node \<Rightarrow> nat" where
  "count_below tags (Node t a tx tail cs) =
     sum_list (map (\<lambda>c. (if n_tag c \<in> set tags then 1 else 0) + count_below tags c) cs)"

fun first_below :: "string list \<Rightarrow> node list \<Rightarrow> node option" where
  "first_below tags [] = None"
| "first_below tags (Node t a tx tail ks # cs) =
     (if t \<in> set tags then Some (Node t a tx tail ks)
      else (case first_below tags ks of
              Some r \<Rightarrow> Some r
            | None \<Rightarrow> first_below tags cs))"

text \<open>
  The header cells said without the query: every proper descendant of an element comes
  with the tags of the elements between the element and itself, and a header cell is a
  \<^verbatim>\<open>th\<close>, or a \<^verbatim>\<open>td\<close> with a \<^verbatim>\<open>thead\<close> among those tags.
\<close>

fun descendants_under :: "string list \<Rightarrow> node \<Rightarrow> (string list \<times> node) list" where
  "descendants_under between (Node t a tx tail cs) =
     concat (map (\<lambda>c. (between, c) # descendants_under (between @ [n_tag c]) c) cs)"

definition is_header_cell :: "string list \<times> node \<Rightarrow> bool" where
  "is_header_cell x =
     (n_tag (snd x) = ''th'' \<or> (n_tag (snd x) = ''td'' \<and> ''thead'' \<in> set (fst x)))"

text \<open>
  The column count in the words of the specification: the number of cells that are
  children of the first row, and 0 when the table has no row.
\<close>

definition spec_column_count :: "node \<Rightarrow> nat" where
  "spec_column_count table =
     (case xpath_descendants [''tr''] table of
        [] \<Rightarrow> 0
      | first_row # _ \<Rightarrow>
          length (filter (\<lambda>c. n_tag c \<in> set [''td'', ''th'']) (n_children first_row)))"

text \<open>
  The one case in which the diffing step of a scan raises: the row that the lookup
  returns has another hash than the text just fetched, and its stored text decodes to a
  value that is no dictionary.
\<close>

definition diff_raises :: "env \<Rightarrow> string \<Rightarrow> world \<Rightarrow> string \<Rightarrow> bool" where
  "diff_raises env url w current_hash =
     (case get_last_scan w url of
        None \<Rightarrow> False
      | Some (last_hash, last_structure_json) \<Rightarrow>
          current_hash \<noteq> last_hash \<and> json_loads env last_structure_json = Some JsonOther)"

text \<open>The calls one scan adds to the record of calls.\<close>

definition new_calls :: "env \<Rightarrow> config \<Rightarrow> string \<Rightarrow> world \<Rightarrow> event list" where
  "new_calls env cfg url w = drop (length (calls w)) (calls (snd (scan_url env cfg url w)))"

fun is_alert :: "event \<Rightarrow> bool" where
  "is_alert (Alerted recipient url changes html_diff) = True"
| "is_alert e = False"

fun is_save :: "event \<Rightarrow> bool" where
  "is_save (Saved url) = True"
| "is_save e = False"

text \<open>
  Two orders of a sequence of calls; the flag says whether the scan record has been
  written so far. \<open>saved_before_alerts\<close>: every alert comes after the write.
  \<open>alerts_before_save\<close>: every alert comes before the write.
\<close>

fun saved_before_alerts :: "bool \<Rightarrow> event list \<Rightarrow> bool" where
  "saved_before_alerts saved [] = True"
| "saved_before_alerts saved (e # es) =
     (if is_alert e then saved \<and> saved_before_alerts saved es
      else saved_before_alerts (saved \<or> is_save e) es)"

fun alerts_before_save :: "bool \<Rightarrow> event list \<Rightarrow> bool" where
  "alerts_before_save saved [] = True"
| "alerts_before_save saved (e # es) =
     (if is_alert e then \<not> saved \<and> alerts_before_save saved es
      else alerts_before_save (saved \<or> is_save e) es)"

section \<open>Example inputs\<close>

text \<open>
  A page with one paragraph, scanned before with the text \<^verbatim>\<open>Hello\<close> and now
  with the text \<^verbatim>\<open>Goodbye\<close>; one recipient is configured.
\<close>

definition ex_page :: string where
  "ex_page = ''<p>Goodbye</p>''"

definition ex_doc :: node where
  "ex_doc = Node ''p'' [] (Some ''Goodbye'') None []"

definition ex_old_structure :: page_structure where
  "ex_old_structure =
     \<lparr>elements = Some [(''/html/body/p'', \<lparr>el_tag = ''p'', el_text = ''Hello'', el_tail = []\<rparr>)],
      attributes = Some [], tables = Some [], forms = Some []\<rparr>"

definition ex_new_structure :: page_structure where
  "ex_new_structure =
     \<lparr>elements = Some [(''/html/body/p'', \<lparr>el_tag = ''p'', el_text = ''Goodbye'', el_tail = []\<rparr>)],
      attributes = Some [], tables = Some [], forms = Some []\<rparr>"

definition ex_env :: env where
  "ex_env =
     \<lparr>session_get = (\<lambda>url. Some ex_page),
      md5_hexdigest = (\<lambda>s. ''md5:'' @ s),
      html_fromstring = (\<lambda>s. if s = ex_page then Some ex_doc else None),
      getpath = (\<lambda>root pos. Some ''/html/body/p''),
      json_dumps = (\<lambda>s. if s = empty_dict then Some ''{}'' else Some ''new''),
      json_loads = (\<lambda>s. if s = ''old'' then Some (JsonDict ex_old_structure)
                         else if s = ''null'' then Some JsonOther else None),
      datetime_now = 7,
      current_timestamp = 9,
      db_writable = True\<rparr>"

definition ex_cfg :: config where
  "ex_cfg = \<lparr>email_enabled = True, recipients = [''ops''], generate_diff = False\<rparr>"

definition ex_row :: "string \<Rightarrow> string \<Rightarrow> scan_row" where
  "ex_row html_hash stored =
     \<lparr>sr_id = 1, sr_url = ''u'', sr_scan_time = 5, sr_html_hash = html_hash,
      sr_xpath_structure = stored, sr_changes_detected = 0\<rparr>"

text \<open>A second record of the same URL, written within the same second as the first.\<close>

definition ex_second_row :: "string \<Rightarrow> string \<Rightarrow> scan_row" where
  "ex_second_row html_hash stored =
     \<lparr>sr_id = 2, sr_url = ''u'', sr_scan_time = 5, sr_html_hash = html_hash,
      sr_xpath_structure = stored, sr_changes_detected = 1\<rparr>"

definition ex_world :: "scan_row list \<Rightarrow> world" where
  "ex_world rows = \<lparr>scan_history = rows, detected_changes = [], calls = []\<rparr>"

definition ex_change :: ChangeDetails where
  "ex_change =
     \<lparr>change_type = element_text_changed, xpath = ''/html/body/p'',
      old_value = Some (Lit ''Hello''), new_value = Some (Lit ''Goodbye''),
      element_type = ''p'', timestamp = 7\<rparr>"

text \<open>A table whose only row holds one cell, and in it a table of one row and two cells.\<close>

definition ex_nested_table :: node where
  "ex_nested_table =
     Node ''table'' [] None None
       [Node ''tr'' [] None None
          [Node ''td'' [] None None
             [Node ''table'' [] None None
                [Node ''tr'' [] None None
                   [Node ''td'' [] (Some ''a'') None [],
                    Node ''td'' [] (Some ''b'') None []]]]]]"

text \<open>Two structures with the same table, two rows in the first and three in the second.\<close>

definition ex_table_page :: "nat \<Rightarrow> page_structure" where
  "ex_table_page n =
     \<lparr>elements = Some [], attributes = Some [],
      tables = Some [(''/html/body/table'',
                      \<lparr>headers = [''Name''], row_count = n, column_count = 1\<rparr>)],
      forms = Some []\<rparr>"

text \<open>Two structures of one element each, at different paths.\<close>

definition ex_one_element :: "string \<Rightarrow> string \<Rightarrow> page_structure" where
  "ex_one_element path tg =
     \<lparr>elements = Some [(path, \<lparr>el_tag = tg, el_text = [], el_tail = []\<rparr>)],
      attributes = Some [], tables = Some [], forms = Some []\<rparr>"



text \<open>The same environment with a database that cannot be written.\<close>

definition ex_env_readonly :: env where
  "ex_env_readonly = ex_env\<lparr>db_writable := False\<rparr>"

text \<open>The same environment with a server that answers with an empty body.\<close>

definition ex_env_empty_body :: env where
  "ex_env_empty_body = ex_env\<lparr>session_get := (\<lambda>url. Some [])\<rparr>"

text \<open>
  A table with a header section of three cells, one of them blank, and one body row.
\<close>

definition ex_header_table :: node where
  "ex_header_table =
     Node ''table'' [] None None
       [Node ''thead'' [] None None
          [Node ''tr'' [] None None
             [Node ''th'' [] (Some '' Name '') None [],
              Node ''td'' [] (Some ''Age'') None [],
              Node ''th'' [] (Some ''  '') None []]],
        Node ''tbody'' [] None None
          [Node ''tr'' [] None None
             [Node ''td'' [] (Some ''Ann'') None [],
              Node ''td'' [] (Some ''41'') None [],
              Node ''td'' [] None None []]]]"

text \<open>An environment whose parser returns that table as the document.\<close>

definition ex_table_env :: env where
  "ex_table_env =
     ex_env\<lparr>html_fromstring := (\<lambda>s. Some ex_header_table),
            getpath := (\<lambda>root pos. if pos = [] then Some ''/html/body/table''
                                   else Some ''/other'')\<rparr>"

section \<open>Diffing a structure against itself\<close>

lemma compare_elements_same: "compare_elements d d ts = []"
  by (auto simp: compare_elements_def keys_def split: option.splits)

lemma compare_attributes_same: "compare_attributes d d ts = []"
  by (auto simp: compare_attributes_def attribute_change_def Let_def)

lemma compare_tables_same: "compare_tables d d ts = []"
  by (auto simp: compare_tables_def keys_def split: option.splits)

lemma compare_forms_same: "compare_forms d d ts = []"
  by (auto simp: compare_forms_def form_change_def Let_def split: option.splits)

text \<open>
  Claim C6. Diffing any page structure against itself yields the empty list of changes,
  whatever the detection time.
\<close>

theorem compare_structures_same: "compare_structures ts A A = []"
  by (simp add: compare_structures_def compare_elements_same compare_attributes_same
      compare_tables_same compare_forms_same)

text \<open>The same at the structure of the example page.\<close>

theorem compare_structures_same_witness:
  "compare_structures 7 ex_old_structure ex_old_structure = []"
  using compare_structures_same [of 7 ex_old_structure] .

section \<open>Additions and removals under exchange of the two sides\<close>

lemma swap_type_invol: "swap_type (swap_type t) = t"
  by (cases t) simp_all

lemma swap_sides_invol: "swap_sides (swap_sides c) = c"
  by (simp add: swap_sides_def swap_type_invol)

lemma is_added_swap: "is_added (swap_sides c) = is_removed c"
  by (cases "change_type c") (simp_all add: is_added_def is_removed_def swap_sides_def)

lemma is_removed_swap: "is_removed (swap_sides c) = is_added c"
  by (cases "change_type c") (simp_all add: is_added_def is_removed_def swap_sides_def)

lemma keys_iff: "xp \<in> set (keys d) \<longleftrightarrow> map_of d xp \<noteq> None"
  by (simp add: keys_def map_of_eq_None_iff)

lemma swap_elements:
  assumes "c \<in> set (compare_elements a b ts)" "is_added c \<or> is_removed c"
  shows "swap_sides c \<in> set (compare_elements b a ts)"
  using assms
  by (auto simp: compare_elements_def keys_iff swap_sides_def is_added_def is_removed_def
      split: option.splits if_splits)

lemma swap_tables:
  assumes "c \<in> set (compare_tables a b ts)" "is_added c \<or> is_removed c"
  shows "swap_sides c \<in> set (compare_tables b a ts)"
  using assms
  by (auto simp: compare_tables_def keys_iff swap_sides_def is_added_def is_removed_def
      split: option.splits if_splits)

lemma set_key_union: "set (key_union a b) = set a \<union> set b"
  by (simp add: key_union_def)

lemma swap_form_change:
  assumes "c \<in> set (form_change a b ts xp)" "is_added c \<or> is_removed c"
  shows "swap_sides c \<in> set (form_change b a ts xp)"
  using assms
  by (cases "map_of a xp"; cases "map_of b xp")
     (auto simp: form_change_def swap_sides_def is_added_def is_removed_def Let_def
      split: if_splits)

lemma swap_forms:
  assumes "c \<in> set (compare_forms a b ts)" "is_added c \<or> is_removed c"
  shows "swap_sides c \<in> set (compare_forms b a ts)"
proof -
  from assms(1) obtain xp where xp: "xp \<in> set (keys a) \<union> set (keys b)"
    and c: "c \<in> set (form_change a b ts xp)"
    by (auto simp: compare_forms_def set_key_union)
  from c assms(2) have "swap_sides c \<in> set (form_change b a ts xp)"
    by (rule swap_form_change)
  with xp show ?thesis
    by (auto simp: compare_forms_def set_key_union)
qed

lemma swap_attribute_change:
  assumes "c \<in> set (attribute_change xp oa na ts n)"
  shows "swap_sides c \<in> set (attribute_change xp na oa ts n)"
  using assms
  by (cases "map_of oa n"; cases "map_of na n")
     (auto simp: attribute_change_def swap_sides_def Let_def split: if_splits)

lemma set_compare_attributes:
  "set (compare_attributes a b ts) =
     (\<Union>xp \<in> set (keys a) \<union> set (keys b).
        \<Union>n \<in> set (keys (get_or a xp [])) \<union> set (keys (get_or b xp [])).
          set (attribute_change xp (get_or a xp []) (get_or b xp []) ts n))"
  by (simp add: compare_attributes_def set_key_union Let_def)

lemma swap_attributes:
  assumes "c \<in> set (compare_attributes a b ts)"
  shows "swap_sides c \<in> set (compare_attributes b a ts)"
proof -
  from assms obtain xp n where
    xp: "xp \<in> set (keys a) \<union> set (keys b)" and
    n: "n \<in> set (keys (get_or a xp [])) \<union> set (keys (get_or b xp []))" and
    c: "c \<in> set (attribute_change xp (get_or a xp []) (get_or b xp []) ts n)"
    unfolding set_compare_attributes by blast
  from c have "swap_sides c \<in> set (attribute_change xp (get_or b xp []) (get_or a xp []) ts n)"
    by (rule swap_attribute_change)
  with xp n show ?thesis
    unfolding set_compare_attributes by blast
qed

lemma swap_structures:
  assumes "c \<in> set (compare_structures ts A B)" "is_added c \<or> is_removed c"
  shows "swap_sides c \<in> set (compare_structures ts B A)"
  using assms
  by (auto simp: compare_structures_def
      dest: swap_elements swap_attributes swap_tables swap_forms)

lemma symmetric_same_time: 
  "swap_sides ` {c \<in> set (compare_structures ts A B). is_added c}
     = {c \<in> set (compare_structures ts B A). is_removed c}
   \<and> swap_sides ` {c \<in> set (compare_structures ts A B). is_removed c}
     = {c \<in> set (compare_structures ts B A). is_added c}
   \<and> xpath ` {c \<in> set (compare_structures ts A B). is_added c}
     = xpath ` {c \<in> set (compare_structures ts B A). is_removed c}
   \<and> xpath ` {c \<in> set (compare_structures ts A B). is_removed c}
     = xpath ` {c \<in> set (compare_structures ts B A). is_added c}"
proof -
  have sub1: "swap_sides ` {c \<in> set (compare_structures ts X Y). is_added c}
     \<subseteq> {c \<in> set (compare_structures ts Y X). is_removed c}" for X Y
    by (auto simp: is_removed_swap intro: swap_structures)
  have sub2: "swap_sides ` {c \<in> set (compare_structures ts X Y). is_removed c}
     \<subseteq> {c \<in> set (compare_structures ts Y X). is_added c}" for X Y
    by (auto simp: is_added_swap intro: swap_structures)
  have inv_sub: "S \<subseteq> swap_sides ` T" if "swap_sides ` S \<subseteq> T" for S T
  proof
    fix c assume "c \<in> S"
    with that have "swap_sides c \<in> T" by blast
    then have "swap_sides (swap_sides c) \<in> swap_sides ` T" by (rule imageI)
    then show "c \<in> swap_sides ` T" by (simp add: swap_sides_invol)
  qed
  have e1: "swap_sides ` {c \<in> set (compare_structures ts X Y). is_added c}
     = {c \<in> set (compare_structures ts Y X). is_removed c}" for X Y
    using sub1[of X Y] inv_sub[OF sub2[of Y X]] by blast
  have e2: "swap_sides ` {c \<in> set (compare_structures ts X Y). is_removed c}
     = {c \<in> set (compare_structures ts Y X). is_added c}" for X Y
    using sub2[of X Y] inv_sub[OF sub1[of Y X]] by blast
  have xp: "xpath ` swap_sides ` S = xpath ` S" for S
    by (simp add: image_image swap_sides_def)
  show ?thesis
    using e1[of A B] e2[of A B] xp[of "{c \<in> set (compare_structures ts A B). is_added c}"]
      xp[of "{c \<in> set (compare_structures ts A B). is_removed c}"]
    by simp
qed

lemma map_concat_map:
  "(\<And>x. map f (g x) = h x) \<Longrightarrow> map f (concat (map g xs)) = concat (map h xs)"
  by (simp add: map_concat comp_def)

lemma restamp_elements:
  "map (restamp t2) (compare_elements a b t1) = compare_elements a b t2"
  unfolding compare_elements_def map_append
  by (intro arg_cong2 [where f = append] map_concat_map)
     (auto simp: restamp_def split: option.splits)

lemma restamp_tables:
  "map (restamp t2) (compare_tables a b t1) = compare_tables a b t2"
  unfolding compare_tables_def map_append
  by (intro arg_cong2 [where f = append] map_concat_map)
     (auto simp: restamp_def split: option.splits)

lemma restamp_attributes:
  "map (restamp t2) (compare_attributes a b t1) = compare_attributes a b t2"
  unfolding compare_attributes_def Let_def
  by (intro map_concat_map) (auto simp: restamp_def attribute_change_def Let_def)

lemma restamp_forms:
  "map (restamp t2) (compare_forms a b t1) = compare_forms a b t2"
  unfolding compare_forms_def
  by (intro map_concat_map)
     (auto simp: restamp_def form_change_def Let_def split: option.splits)

lemma restamp_structures:
  "map (restamp t2) (compare_structures t1 A B) = compare_structures t2 A B"
  by (simp add: compare_structures_def restamp_elements restamp_attributes restamp_tables
      restamp_forms)

lemma is_added_restamp: "is_added (restamp ts c) = is_added c"
  by (simp add: is_added_def restamp_def)

lemma is_removed_restamp: "is_removed (restamp ts c) = is_removed c"
  by (simp add: is_removed_def restamp_def)

lemma restamp_filter:
  "{c \<in> set (compare_structures t2 A B). P c}
     = restamp t2 ` {c \<in> set (compare_structures t1 A B). P (restamp t2 c)}"
  unfolding restamp_structures [of t2 t1 A B, symmetric] by auto

text \<open>
  Claim C7. For any two structures \<open>A\<close> and \<open>B\<close> and any two detection times,
  exchanging the sides of the additions of \<open>compare_structures A B\<close> gives exactly
  the removals of \<open>compare_structures B A\<close>, and exchanging the sides of its removals
  gives exactly the additions of the other run: the change type goes to the other variant
  of its kind, the old and the new value change places, and the change carries the time
  of the other run. Hence the paths flagged as added in one run are the paths flagged as
  removed in the other, and the other way round. Additions and removals of elements,
  attributes, tables and forms are all covered.
\<close>

theorem added_removed_symmetric:
  "(restamp t2 \<circ> swap_sides) ` {c \<in> set (compare_structures t1 A B). is_added c}
     = {c \<in> set (compare_structures t2 B A). is_removed c}
   \<and> (restamp t2 \<circ> swap_sides) ` {c \<in> set (compare_structures t1 A B). is_removed c}
     = {c \<in> set (compare_structures t2 B A). is_added c}
   \<and> xpath ` {c \<in> set (compare_structures t1 A B). is_added c}
     = xpath ` {c \<in> set (compare_structures t2 B A). is_removed c}
   \<and> xpath ` {c \<in> set (compare_structures t1 A B). is_removed c}
     = xpath ` {c \<in> set (compare_structures t2 B A). is_added c}"
proof -
  note same = symmetric_same_time [of t1 A B]
  have r: "{c \<in> set (compare_structures t2 B A). is_removed c}
         = restamp t2 ` {c \<in> set (compare_structures t1 B A). is_removed c}"
    using restamp_filter [of t2 B A is_removed t1] by (simp add: is_removed_restamp)
  have a: "{c \<in> set (compare_structures t2 B A). is_added c}
         = restamp t2 ` {c \<in> set (compare_structures t1 B A). is_added c}"
    using restamp_filter [of t2 B A is_added t1] by (simp add: is_added_restamp)
  have xp: "xpath ` restamp t2 ` S = xpath ` S" for S
    by (simp add: image_image restamp_def)
  from same have 1: "(restamp t2 \<circ> swap_sides) ` {c \<in> set (compare_structures t1 A B). is_added c}
     = {c \<in> set (compare_structures t2 B A). is_removed c}"
    unfolding r image_comp [symmetric] by simp
  from same have 2: "(restamp t2 \<circ> swap_sides) ` {c \<in> set (compare_structures t1 A B). is_removed c}
     = {c \<in> set (compare_structures t2 B A). is_added c}"
    unfolding a image_comp [symmetric] by simp
  from same have 3: "xpath ` {c \<in> set (compare_structures t1 A B). is_added c}
     = xpath ` {c \<in> set (compare_structures t2 B A). is_removed c}"
    unfolding r xp by simp
  from same have 4: "xpath ` {c \<in> set (compare_structures t1 A B). is_removed c}
     = xpath ` {c \<in> set (compare_structures t2 B A). is_added c}"
    unfolding a xp by simp
  from 1 2 3 4 show ?thesis by simp
qed

text \<open>
  The same at two pages of one element each: the \<^verbatim>\<open>div\<close> is the one addition from
  the first page to the second, and its exchanged change is the one removal from the second
  to the first.
\<close>

theorem added_removed_symmetric_witness:
  "(restamp 9 \<circ> swap_sides) `
       {c \<in> set (compare_structures 7 (ex_one_element ''/html/body/p'' ''p'')
                                       (ex_one_element ''/html/body/div'' ''div'')). is_added c}
     = {c \<in> set (compare_structures 9 (ex_one_element ''/html/body/div'' ''div'')
                                       (ex_one_element ''/html/body/p'' ''p'')). is_removed c}
   \<and> {c \<in> set (compare_structures 7 (ex_one_element ''/html/body/p'' ''p'')
                                     (ex_one_element ''/html/body/div'' ''div'')). is_added c}
     = {\<lparr>change_type = element_added, xpath = ''/html/body/div'', old_value = None,
         new_value = Some (StrElement \<lparr>el_tag = ''div'', el_text = [], el_tail = []\<rparr>),
         element_type = ''div'', timestamp = 7\<rparr>}"
proof -
  have "{c \<in> set (compare_structures 7 (ex_one_element ''/html/body/p'' ''p'')
                                     (ex_one_element ''/html/body/div'' ''div'')). is_added c}
     = {\<lparr>change_type = element_added, xpath = ''/html/body/div'', old_value = None,
         new_value = Some (StrElement \<lparr>el_tag = ''div'', el_text = [], el_tail = []\<rparr>),
         element_type = ''div'', timestamp = 7\<rparr>}"
    by (auto simp: compare_structures_def ex_one_element_def get_elements_def
      get_attributes_def get_tables_def get_forms_def compare_elements_def
      compare_attributes_def compare_tables_def compare_forms_def keys_def key_union_def
      is_added_def)
  then show ?thesis
    using added_removed_symmetric [of 9 7 "ex_one_element ''/html/body/p'' ''p''"
        "ex_one_element ''/html/body/div'' ''div''"]
    by simp
qed

section \<open>Tables whose row count alone differs\<close>

lemma compare_tables_at_common_path:
  assumes "map_of old_tables p = Some ta" "map_of new_tables p = Some tb"
    "headers ta = headers tb" "column_count ta = column_count tb"
    "c \<in> set (compare_tables old_tables new_tables ts)"
  shows "xpath c \<noteq> p"
  using assms
  by (auto simp: compare_tables_def keys_def split: option.splits if_splits)

lemma compare_elements_types:
  "c \<in> set (compare_elements a b ts) \<Longrightarrow> \<not> is_table_change c"
  by (auto simp: compare_elements_def is_table_change_def split: option.splits if_splits)

lemma compare_attributes_types:
  "c \<in> set (compare_attributes a b ts) \<Longrightarrow> \<not> is_table_change c"
  by (auto simp: compare_attributes_def attribute_change_def is_table_change_def Let_def
      split: if_splits)

lemma compare_forms_types:
  "c \<in> set (compare_forms a b ts) \<Longrightarrow> \<not> is_table_change c"
  by (auto simp: compare_forms_def form_change_def is_table_change_def Let_def
      split: option.splits if_splits)

text \<open>
  Claim C9. For two structures with a table at the same path, equal headers and equal
  column counts, but different row counts, the table comparison emits no change at that
  path, and \<open>compare_structures\<close> emits no table change (removed, added, headers
  changed, columns changed) at that path: the row count is not compared, and there is no
  other kind of table change.
\<close>

theorem row_count_not_diffed:
  assumes "map_of (get_tables A) p = Some ta" "map_of (get_tables B) p = Some tb"
    "headers ta = headers tb" "column_count ta = column_count tb"
    "row_count ta \<noteq> row_count tb"
  shows "filter (\<lambda>c. xpath c = p) (compare_tables (get_tables A) (get_tables B) ts) = []
     \<and> filter (\<lambda>c. xpath c = p \<and> is_table_change c) (compare_structures ts A B) = []"
proof -
  have t: "filter (\<lambda>c. xpath c = p) (compare_tables (get_tables A) (get_tables B) ts) = []"
    using compare_tables_at_common_path [OF assms(1-4)]
    by (auto simp: filter_empty_conv)
  have e: "filter (\<lambda>c. xpath c = p \<and> is_table_change c)
             (compare_elements (get_elements A) (get_elements B) ts) = []"
    by (auto simp: filter_empty_conv dest: compare_elements_types)
  have a: "filter (\<lambda>c. xpath c = p \<and> is_table_change c)
             (compare_attributes (get_attributes A) (get_attributes B) ts) = []"
    by (auto simp: filter_empty_conv dest: compare_attributes_types)
  have f: "filter (\<lambda>c. xpath c = p \<and> is_table_change c)
             (compare_forms (get_forms A) (get_forms B) ts) = []"
    by (auto simp: filter_empty_conv dest: compare_forms_types)
  have t': "filter (\<lambda>c. xpath c = p \<and> is_table_change c)
             (compare_tables (get_tables A) (get_tables B) ts) = []"
    using compare_tables_at_common_path [OF assms(1-4)]
    by (auto simp: filter_empty_conv)
  show ?thesis
    using t e a f t' by (simp add: compare_structures_def)
qed

text \<open>The same at the table page with two rows against the one with three.\<close>

theorem row_count_not_diffed_witness:
  "filter (\<lambda>c. xpath c = ''/html/body/table'')
      (compare_tables (get_tables (ex_table_page 2)) (get_tables (ex_table_page 3)) 7) = []
   \<and> filter (\<lambda>c. xpath c = ''/html/body/table'' \<and> is_table_change c)
      (compare_structures 7 (ex_table_page 2) (ex_table_page 3)) = []"
proof -
  have h1: "map_of (get_tables (ex_table_page 2)) ''/html/body/table''
              = Some \<lparr>headers = [''Name''], row_count = 2, column_count = 1\<rparr>"
    and h2: "map_of (get_tables (ex_table_page 3)) ''/html/body/table''
              = Some \<lparr>headers = [''Name''], row_count = 3, column_count = 1\<rparr>"
    by (simp_all add: ex_table_page_def get_tables_def)
  show ?thesis
    using row_count_not_diffed [OF h1 h2, of 7] by simp
qed

section \<open>The snapshot of a table\<close>

lemma length_xpath_descendants:
  "length (xpath_descendants tags n) = count_below tags n"
proof (induction n rule: descendants.induct)
  case (1 t a tx tail cs)
  have "length (filter (\<lambda>n. n_tag n \<in> set tags) (concat (map (\<lambda>c. c # descendants c) ks)))
        = sum_list (map (\<lambda>c. (if n_tag c \<in> set tags then 1 else 0) + count_below tags c) ks)"
    if "set ks \<subseteq> set cs" for ks
    using that
  proof (induction ks)
    case Nil
    then show ?case by simp
  next
    case (Cons k ks)
    then have "length (xpath_descendants tags k) = count_below tags k"
      using "1.IH" by simp
    with Cons show ?case by (simp add: xpath_descendants_def)
  qed
  then show ?case by (simp add: xpath_descendants_def)
qed

lemma first_forest:
  "(case filter (\<lambda>n. n_tag n \<in> set tags) (concat (map (\<lambda>c. c # descendants c) cs)) of
      [] \<Rightarrow> None | r # _ \<Rightarrow> Some r) = first_below tags cs"
proof (induction tags cs rule: first_below.induct)
  case (1 tags)
  then show ?case by simp
next
  case (2 tags t a tx tail ks cs)
  show ?case
  proof (cases "t \<in> set tags")
    case True
    then show ?thesis by simp
  next
    case False
    with 2 show ?thesis
      by (cases "filter (\<lambda>n. n_tag n \<in> set tags) (concat (map (\<lambda>c. c # descendants c) ks))")
         (auto split: list.splits option.splits)
  qed
qed

lemma first_xpath_descendants:
  "(case xpath_descendants tags n of [] \<Rightarrow> None | r # _ \<Rightarrow> Some r)
     = first_below tags (n_children n)"
  by (cases n) (simp add: xpath_descendants_def first_forest)

lemma header_cells_under:
  "header_cells (''thead'' \<in> set between) n
     = map snd (filter is_header_cell (descendants_under between n))"
proof (induction between n rule: descendants_under.induct)
  case (1 between t a tx tail cs)
  have "(if n_tag c = ''th'' \<or> (n_tag c = ''td'' \<and> ''thead'' \<in> set between) then [c] else [])
          @ header_cells (''thead'' \<in> set between \<or> n_tag c = ''thead'') c
        = map snd (filter is_header_cell ((between, c) # descendants_under (between @ [n_tag c]) c))"
    if "c \<in> set cs" for c
  proof -
    have flag: "(''thead'' \<in> set (between @ [n_tag c]))
                  = (''thead'' \<in> set between \<or> n_tag c = ''thead'')"
      by auto
    have ih: "header_cells (''thead'' \<in> set between \<or> n_tag c = ''thead'') c
                = map snd (filter is_header_cell (descendants_under (between @ [n_tag c]) c))"
      using "1.IH" [OF that] unfolding flag .
    have hd: "(if n_tag c = ''th'' \<or> (n_tag c = ''td'' \<and> ''thead'' \<in> set between)
               then [c] else [])
                = map snd (filter is_header_cell [(between, c)])"
      by (simp add: is_header_cell_def)
    show ?thesis unfolding ih hd by simp
  qed
  then show ?case
    by (simp add: map_concat filter_concat comp_def cong: map_cong)
qed

lemma header_cells_spec:
  "header_cells False table = map snd (filter is_header_cell (descendants_under [] table))"
  using header_cells_under [of "[]" table] by simp

lemma extract_table_structure_counts:
  "headers (extract_table_structure table)
     = filter (\<lambda>s. s \<noteq> [])
         (map (\<lambda>x. strip (text_content (snd x)))
              (filter is_header_cell (descendants_under [] table)))
   \<and> row_count (extract_table_structure table) = count_below [''tr''] table
   \<and> column_count (extract_table_structure table)
     = (case first_below [''tr''] (n_children table) of
          None \<Rightarrow> 0
        | Some first_row \<Rightarrow> count_below [''td'', ''th''] first_row)"
proof -
  have "column_count (extract_table_structure table)
     = (case first_below [''tr''] (n_children table) of
          None \<Rightarrow> 0
        | Some first_row \<Rightarrow> count_below [''td'', ''th''] first_row)"
    using first_xpath_descendants[of "[''tr'']" table, symmetric]
    by (cases "xpath_descendants [''tr''] table")
       (simp_all add: extract_table_structure_def Let_def length_xpath_descendants)
  then show ?thesis
    by (simp add: extract_table_structure_def Let_def length_xpath_descendants
        header_cells_spec comp_def)
qed

lemma map_of_fold_update:
  "map_of (fold (\<lambda>(p, n) d. AList.update (f p) (g n) d) xs d0) k =
     (case filter (\<lambda>x. f (fst x) = k) (rev xs) of
        [] \<Rightarrow> map_of d0 k
      | x # _ \<Rightarrow> Some (g (snd x)))"
proof (induction xs arbitrary: d0)
  case Nil
  then show ?case by simp
next
  case (Cons x xs)
  obtain p n where x: "x = (p, n)" by (cases x)
  show ?case
    by (cases "filter (\<lambda>x. f (fst x) = k) (rev xs)")
       (simp_all add: Cons.IH x update_conv')
qed

lemma stored_table:
  assumes "(pos, table) \<in> set nodes" "n_tag table = ''table''"
    and "\<forall>(pos', t') \<in> set nodes. n_tag t' = ''table'' \<and> path pos' = path pos \<longrightarrow> t' = table"
  shows "map_of (fold (\<lambda>(pos, table) d. AList.update (path pos) (extract_table_structure table) d)
            (filter (\<lambda>(pos, n). n_tag n = ''table'') nodes) []) (path pos)
         = Some (extract_table_structure table)"
proof -
  let ?ts = "filter (\<lambda>(pos, n). n_tag n = ''table'') nodes"
  let ?hits = "filter (\<lambda>x. path (fst x) = path pos) (rev ?ts)"
  have "(pos, table) \<in> set ?hits" using assms(1,2) by simp
  then obtain x rest where hits: "?hits = x # rest" by (cases ?hits) auto
  then have "x \<in> set ?hits" by simp
  then have "x \<in> set nodes" "n_tag (snd x) = ''table''" "path (fst x) = path pos"
    by auto
  with assms(3) have "snd x = table" by (cases x) auto
  with hits show ?thesis by (simp add: map_of_fold_update)
qed

text \<open>
  Claim C8 as the specification words it fails on the column count: for the table whose
  only row holds one cell with a table of two cells inside, the first row has one cell
  among its children, and the extracted column count is 3, since the query
  \<^verbatim>\<open>.//td | .//th\<close> selects the cells at any depth below the row.
\<close>

theorem column_count_counterexample:
  "column_count (extract_table_structure ex_nested_table) = 3
   \<and> spec_column_count ex_nested_table = 1"
  by (simp add: extract_table_structure_def spec_column_count_def ex_nested_table_def
      xpath_descendants_def Let_def)

text \<open>
  Claim C8, amended. For every table element of the parsed document whose path no other
  table element shares, the snapshot stored under its path is the one extracted from it,
  and in that snapshot: the headers are the stripped, non-empty texts of the header cells
  (every \<^verbatim>\<open>th\<close> below the table, every \<^verbatim>\<open>td\<close> with a \<^verbatim>\<open>thead\<close> between the table
  and itself) in document order; the row count is the number of \<^verbatim>\<open>tr\<close> elements at any depth below
  the table, rows of a header section and of nested tables included; the column count is
  the number of \<^verbatim>\<open>td\<close> and \<^verbatim>\<open>th\<close> elements at any depth below the first such
  \<^verbatim>\<open>tr\<close> in document order, and 0 when there is none.
\<close>

theorem table_snapshot_counts:
  assumes "html_fromstring env html_content = Some doc"
    and "(pos, table) \<in> set (iter_node [] doc)" and "n_tag table = ''table''"
    and "\<forall>(pos', t') \<in> set (iter_node [] doc).
           n_tag t' = ''table'' \<and> get_element_xpath env doc pos' = get_element_xpath env doc pos
           \<longrightarrow> t' = table"
  shows "map_of (get_tables (extract_xpath_structure env html_content))
           (get_element_xpath env doc pos) = Some (extract_table_structure table)
   \<and> headers (extract_table_structure table)
     = filter (\<lambda>s. s \<noteq> [])
         (map (\<lambda>x. strip (text_content (snd x)))
              (filter is_header_cell (descendants_under [] table)))
   \<and> row_count (extract_table_structure table) = count_below [''tr''] table
   \<and> column_count (extract_table_structure table)
     = (case first_below [''tr''] (n_children table) of
          None \<Rightarrow> 0
        | Some first_row \<Rightarrow> count_below [''td'', ''th''] first_row)"
proof -
  have "map_of (get_tables (extract_xpath_structure env html_content))
           (get_element_xpath env doc pos) = Some (extract_table_structure table)"
    using stored_table [OF assms(2,3), of "get_element_xpath env doc"] assms(1,4)
    by (simp add: extract_xpath_structure_def get_tables_def Let_def)
  then show ?thesis
    using extract_table_structure_counts [of table] by simp
qed

text \<open>
  The same at the table with a header section: the blank header cell is dropped, both
  rows are counted, and the first row has three cells.
\<close>

theorem table_snapshot_counts_witness:
  "map_of (get_tables (extract_xpath_structure ex_table_env ''<table>''))
           ''/html/body/table''
      = Some \<lparr>headers = [''Name'', ''Age''], row_count = 2, column_count = 3\<rparr>
   \<and> count_below [''tr''] ex_header_table = 2"
proof -
  have h1: "html_fromstring ex_table_env ''<table>'' = Some ex_header_table"
    by (simp add: ex_table_env_def)
  have h2: "([], ex_header_table) \<in> set (iter_node [] ex_header_table)"
    by (simp add: ex_header_table_def)
  have h3: "n_tag ex_header_table = ''table''"
    by (simp add: ex_header_table_def)
  have p: "get_element_xpath ex_table_env ex_header_table pos
            = (if pos = [] then ''/html/body/table'' else ''/other'')" for pos
    by (simp add: get_element_xpath_def ex_table_env_def)
  have h4: "\<forall>(pos', t') \<in> set (iter_node [] ex_header_table).
           n_tag t' = ''table'' \<and> get_element_xpath ex_table_env ex_header_table pos'
              = get_element_xpath ex_table_env ex_header_table []
           \<longrightarrow> t' = ex_header_table"
    unfolding p by (simp add: ex_header_table_def)
  have v: "extract_table_structure ex_header_table
     = \<lparr>headers = [''Name'', ''Age''], row_count = 2, column_count = 3\<rparr>"
    by (simp add: extract_table_structure_def ex_header_table_def xpath_descendants_def Let_def
      strip_def is_space_def or_empty_def)
  show ?thesis
    using table_snapshot_counts [OF h1 h2 h3 h4] by (simp add: p v)
qed

section \<open>Facts about the example inputs\<close>

lemma ex_env_fields:
  "session_get ex_env url = Some ex_page"
  "md5_hexdigest ex_env s = ''md5:'' @ s"
  "html_fromstring ex_env ex_page = Some ex_doc"
  "json_loads ex_env s = (if s = ''old'' then Some (JsonDict ex_old_structure)
                          else if s = ''null'' then Some JsonOther else None)"
  "json_dumps ex_env st = (if st = empty_dict then Some ''{}'' else Some ''new'')"
  "datetime_now ex_env = 7"
  "current_timestamp ex_env = 9"
  "db_writable ex_env"
  by (simp_all add: ex_env_def)

lemma ex_page_facts:
  "ex_page \<noteq> []"
  "ex_page \<noteq> ''<p>Hello</p>''"
  by (simp_all add: ex_page_def)

lemma ex_extract: "extract_xpath_structure ex_env ex_page = ex_new_structure"
  by (simp add: extract_xpath_structure_def ex_env_def ex_page_def ex_doc_def
      get_element_xpath_def strip_def is_space_def or_empty_def ex_new_structure_def)

lemma ex_new_not_empty: "ex_new_structure \<noteq> empty_dict"
  by (simp add: ex_new_structure_def empty_dict_def)

lemma ex_compare: "compare_structures 7 ex_old_structure ex_new_structure = [ex_change]"
  by (simp add: compare_structures_def ex_old_structure_def ex_new_structure_def
      get_elements_def get_attributes_def get_tables_def get_forms_def compare_elements_def
      compare_attributes_def compare_tables_def compare_forms_def keys_def key_union_def
      ex_change_def)

lemma ex_scan_changed:
  "scan_url ex_env ex_cfg ''u'' (ex_world [ex_row ''md5:<p>Hello</p>'' ''old'']) =
     (Inr True,
      \<lparr>scan_history =
         [ex_row ''md5:<p>Hello</p>'' ''old'',
          \<lparr>sr_id = 2, sr_url = ''u'', sr_scan_time = 9, sr_html_hash = ''md5:'' @ ex_page,
            sr_xpath_structure = ''new'', sr_changes_detected = 1\<rparr>],
       detected_changes =
         [\<lparr>cr_scan_id = 2, cr_change_type = element_text_changed,
           cr_xpath = ''/html/body/p'', cr_old_value = Some (Lit ''Hello''),
           cr_new_value = Some (Lit ''Goodbye''), cr_element_type = ''p''\<rparr>],
       calls = [Fetched ''u'', Extracted, LookedUp ''u'', Compared,
                Alerted ''ops'' ''u'' [ex_change] [], Saved ''u'']\<rparr>)"
  by (simp add: scan_url_def fetch_page_def ex_env_fields ex_extract ex_compare ex_page_facts
      ex_new_not_empty get_last_scan_def ex_world_def ex_row_def ex_cfg_def
      save_scan_result_def log_call_def send_alert_def Let_def)
     (simp add: ex_change_def)

lemma ex_readonly_fields:
  "session_get ex_env_readonly url = Some ex_page"
  "extract_xpath_structure ex_env_readonly ex_page = ex_new_structure"
  "json_dumps ex_env_readonly st = (if st = empty_dict then Some ''{}'' else Some ''new'')"
  "md5_hexdigest ex_env_readonly s = ''md5:'' @ s"
  "json_loads ex_env_readonly ''old'' = Some (JsonDict ex_old_structure)"
  "\<not> db_writable ex_env_readonly"
  by (simp_all add: ex_env_readonly_def ex_env_def extract_xpath_structure_def ex_page_def
      ex_doc_def get_element_xpath_def strip_def is_space_def or_empty_def ex_new_structure_def)

lemma ex_world_fields:
  "scan_history (ex_world rows) = rows"
  "detected_changes (ex_world rows) = []"
  "calls (ex_world rows) = []"
  by (simp_all add: ex_world_def)


section \<open>The scan\<close>

lemma get_last_scan_calls: "get_last_scan (w\<lparr>calls := c\<rparr>) url = get_last_scan w url"
  by (simp add: get_last_scan_def)

lemma diff_raises_calls: "diff_raises env url (w\<lparr>calls := c\<rparr>) h = diff_raises env url w h"
  by (simp add: diff_raises_def get_last_scan_calls)

lemma send_alerts_eq:
  "send_alerts rs url ch d w = w\<lparr>calls := calls w @ map (\<lambda>r. Alerted r url ch d) rs\<rparr>"
  by (induction rs arbitrary: w) (simp_all add: send_alert_def log_call_def)

lemma alerts_before_save_alerts:
  "alerts_before_save False (map (\<lambda>r. Alerted r url ch d) rs @ es) = alerts_before_save False es"
  by (induction rs) simp_all

lemma alerts_before_save_only_alerts:
  "alerts_before_save False (map (\<lambda>r. Alerted r url ch d) rs)"
  using alerts_before_save_alerts [of url ch d rs "[]"] by simp

text \<open>
  On a tie of \<^verbatim>\<open>scan_time\<close> the lookup returns the record inserted first, whatever
  was written after it within the same second.
\<close>

lemma ex_lookup_tie:
  "get_last_scan (ex_world [ex_row h1 s1, ex_second_row h2 s2]) ''u'' = Some (h1, s1)"
  by (simp add: get_last_scan_def ex_world_def ex_row_def ex_second_row_def)

lemma ex_lookup_one:
  "get_last_scan (ex_world [ex_row h1 s1]) ''u'' = Some (h1, s1)"
  by (simp add: get_last_scan_def ex_world_def ex_row_def)


text \<open>
  With the records of the old and of the current content written in one second, in this
  order, a scan that fetches the current content looks up the old record, diffs against
  it and reports a change.
\<close>

lemma ex_scan_tie:
  "fst (scan_url ex_env ex_cfg ''u''
         (ex_world [ex_row ''md5:<p>Hello</p>'' ''old'',
                    ex_second_row (''md5:'' @ ex_page) ''new''])) = Inr True"
  by (simp add: scan_url_def fetch_page_def ex_env_fields ex_extract ex_compare ex_page_facts
      ex_new_not_empty ex_lookup_tie get_last_scan_calls ex_cfg_def
      save_scan_result_def log_call_def send_alert_def Let_def)

subsection \<open>Unparseable input\<close>




subsection \<open>The order of notification and persistence\<close>

text \<open>
  Claim C2 fails: in the scan of the example page after its text changed, the alert to
  the one recipient is sent before the scan record is written.
\<close>

theorem save_before_alert_counterexample:
  "new_calls ex_env ex_cfg ''u'' (ex_world [ex_row ''md5:<p>Hello</p>'' ''old''])
     = [Fetched ''u'', Extracted, LookedUp ''u'', Compared,
        Alerted ''ops'' ''u'' [ex_change] [], Saved ''u'']
   \<and> \<not> saved_before_alerts False
       (new_calls ex_env ex_cfg ''u'' (ex_world [ex_row ''md5:<p>Hello</p>'' ''old'']))"
  by (simp add: new_calls_def ex_scan_changed ex_world_fields)

text \<open>
  Claim C2, amended. In every execution of a single scan the order is the opposite one.
  No alert of a scan follows the write of its scan record. When the fetch returns a
  non-empty text, the diffing step does not raise, the current structure is serialized and
  the store can be written, the calls of the scan are the fetch, the extraction and the
  lookup, then the calls of the diffing branch, then the write of the scan record as the
  last call; the diffing branch makes either no call, or the diff of the decoded stored
  structure against the current one, followed by one alert per configured recipient with
  the changes of that diff when there are changes and the notifier is enabled, and by no
  alert otherwise.
\<close>

theorem alerts_precede_save:
  "alerts_before_save False (new_calls env cfg url w)
   \<and> (session_get env url = Some current_html \<and> current_html \<noteq> []
        \<and> \<not> diff_raises env url w (md5_hexdigest env current_html)
        \<and> json_dumps env (extract_xpath_structure env current_html) = Some serialized
        \<and> db_writable env
      \<longrightarrow> (\<exists>diffing.
             new_calls env cfg url w
               = [Fetched url, Extracted, LookedUp url] @ diffing @ [Saved url]
             \<and> (diffing = []
                \<or> (\<exists>last_hash last_structure_json last_structure changes html_diff.
                     get_last_scan w url = Some (last_hash, last_structure_json)
                     \<and> json_loads env last_structure_json = Some (JsonDict last_structure)
                     \<and> changes = compare_structures (datetime_now env) last_structure
                                   (extract_xpath_structure env current_html)
                     \<and> diffing = Compared #
                           map (\<lambda>recipient. Alerted recipient url changes html_diff)
                             (if changes \<noteq> [] \<and> email_enabled cfg then recipients cfg
                              else [])))))"
proof -
  have order: "alerts_before_save False (new_calls env cfg url w)"
    by (auto simp: new_calls_def scan_url_def fetch_page_def save_scan_result_def Let_def
        log_call_def send_alerts_eq get_last_scan_calls alerts_before_save_alerts
        alerts_before_save_only_alerts
        split: option.splits prod.splits if_splits decoded.splits)
  have last: "\<exists>diffing.
             new_calls env cfg url w
               = [Fetched url, Extracted, LookedUp url] @ diffing @ [Saved url]
             \<and> (diffing = []
                \<or> (\<exists>last_hash last_structure_json last_structure changes html_diff.
                     get_last_scan w url = Some (last_hash, last_structure_json)
                     \<and> json_loads env last_structure_json = Some (JsonDict last_structure)
                     \<and> changes = compare_structures (datetime_now env) last_structure
                                   (extract_xpath_structure env current_html)
                     \<and> diffing = Compared #
                           map (\<lambda>recipient. Alerted recipient url changes html_diff)
                             (if changes \<noteq> [] \<and> email_enabled cfg then recipients cfg
                              else [])))"
    if h: "session_get env url = Some current_html" "current_html \<noteq> []"
      "\<not> diff_raises env url w (md5_hexdigest env current_html)"
      "json_dumps env (extract_xpath_structure env current_html) = Some serialized"
      "db_writable env"
  proof (cases "get_last_scan w url")
    case None
    with h show ?thesis
      by (simp add: new_calls_def scan_url_def fetch_page_def save_scan_result_def Let_def
          log_call_def get_last_scan_calls)
  next
    case (Some last)
    obtain last_hash last_json where last: "last = (last_hash, last_json)" by (cases last)
    show ?thesis
    proof (cases "md5_hexdigest env current_html = last_hash")
      case True
      with h Some last show ?thesis
        by (simp add: new_calls_def scan_url_def fetch_page_def save_scan_result_def Let_def
            log_call_def get_last_scan_calls)
    next
      case False
      show ?thesis
      proof (cases "json_loads env last_json")
        case None
        with h Some last False show ?thesis
          by (simp add: new_calls_def scan_url_def fetch_page_def save_scan_result_def Let_def
              log_call_def get_last_scan_calls)
      next
        case (Some d)
        with h(3) \<open>get_last_scan w url = Some last\<close> last False
        obtain last_structure where d: "d = JsonDict last_structure"
          by (cases d) (auto simp: diff_raises_def)
        define changes where
          "changes = compare_structures (datetime_now env) last_structure
                       (extract_xpath_structure env current_html)"
        define html_diff where
          "html_diff = (if generate_diff cfg
                        then ''HTML diff generation requires storing full HTML content''
                        else [])"
        have "new_calls env cfg url w
               = [Fetched url, Extracted, LookedUp url]
                 @ (Compared # map (\<lambda>recipient. Alerted recipient url changes html_diff)
                      (if changes \<noteq> [] \<and> email_enabled cfg then recipients cfg else []))
                 @ [Saved url]"
          using h \<open>get_last_scan w url = Some last\<close> last False Some d
          by (simp add: new_calls_def scan_url_def fetch_page_def save_scan_result_def Let_def
              log_call_def get_last_scan_calls send_alerts_eq changes_def html_diff_def)
        with \<open>get_last_scan w url = Some last\<close> last Some d changes_def
        show ?thesis by blast
      qed
    qed
  qed
  from order last show ?thesis by blast
qed

text \<open>
  The same at the scan of the example page after its text changed, with the calls it
  makes: the alert stands between the diff and the write, and the write is last.
\<close>

theorem alerts_precede_save_witness:
  "alerts_before_save False
      (new_calls ex_env ex_cfg ''u'' (ex_world [ex_row ''md5:<p>Hello</p>'' ''old'']))
   \<and> (\<exists>diffing.
         new_calls ex_env ex_cfg ''u'' (ex_world [ex_row ''md5:<p>Hello</p>'' ''old''])
           = [Fetched ''u'', Extracted, LookedUp ''u''] @ diffing @ [Saved ''u''])
   \<and> new_calls ex_env ex_cfg ''u'' (ex_world [ex_row ''md5:<p>Hello</p>'' ''old''])
       = [Fetched ''u'', Extracted, LookedUp ''u'', Compared,
          Alerted ''ops'' ''u'' [ex_change] [], Saved ''u'']"
proof -
  have h: "session_get ex_env ''u'' = Some ex_page \<and> ex_page \<noteq> []
        \<and> \<not> diff_raises ex_env ''u'' (ex_world [ex_row ''md5:<p>Hello</p>'' ''old''])
               (md5_hexdigest ex_env ex_page)
        \<and> json_dumps ex_env (extract_xpath_structure ex_env ex_page) = Some ''new''
        \<and> db_writable ex_env"
    by (simp add: ex_env_fields ex_page_facts diff_raises_def ex_lookup_one ex_extract
        ex_new_not_empty)
  have c: "new_calls ex_env ex_cfg ''u'' (ex_world [ex_row ''md5:<p>Hello</p>'' ''old''])
       = [Fetched ''u'', Extracted, LookedUp ''u'', Compared,
          Alerted ''ops'' ''u'' [ex_change] [], Saved ''u'']"
    by (simp add: new_calls_def ex_scan_changed ex_world_fields)
  show ?thesis
    using alerts_precede_save [of ex_env ex_cfg "''u''"
        "ex_world [ex_row ''md5:<p>Hello</p>'' ''old'']" ex_page "''new''"] h c
    by blast
qed

subsection \<open>A store that cannot be written\<close>

text \<open>
  Claim C3. For every scan whose fetch returns a non-empty text and whose structure is
  serialized (extraction always returns), if the store cannot be written then an
  exception leaves \<open>scan_url\<close>: the caller gets a failure and no boolean, and the
  two tables are as before. When the diffing step did not raise, so that the write was
  reached, the failure is that of the store.
\<close>

theorem store_failure_reported:
  assumes "session_get env url = Some current_html" "current_html \<noteq> []"
    "json_dumps env (extract_xpath_structure env current_html) = Some serialized"
    "\<not> db_writable env"
  shows "(\<exists>e. fst (scan_url env cfg url w) = Inl e)
     \<and> scan_history (snd (scan_url env cfg url w)) = scan_history w
     \<and> detected_changes (snd (scan_url env cfg url w)) = detected_changes w
     \<and> (\<not> diff_raises env url w (md5_hexdigest env current_html)
          \<longrightarrow> fst (scan_url env cfg url w) = Inl StoreError)"
  using assms
  by (auto simp: scan_url_def fetch_page_def save_scan_result_def Let_def log_call_def
      send_alerts_eq get_last_scan_calls diff_raises_def
      split: prod.splits option.splits if_splits decoded.splits)

text \<open>The same at the changed example page with a database that cannot be written.\<close>

theorem store_failure_reported_witness:
  "fst (scan_url ex_env_readonly ex_cfg ''u'' (ex_world [ex_row ''md5:<p>Hello</p>'' ''old''])) = Inl StoreError
     \<and> scan_history (snd (scan_url ex_env_readonly ex_cfg ''u'' (ex_world [ex_row ''md5:<p>Hello</p>'' ''old''])))
         = [ex_row ''md5:<p>Hello</p>'' ''old'']
     \<and> detected_changes (snd (scan_url ex_env_readonly ex_cfg ''u'' (ex_world [ex_row ''md5:<p>Hello</p>'' ''old'']))) = []"
proof -
  have h1: "session_get ex_env_readonly ''u'' = Some ex_page"
    and h2: "ex_page \<noteq> []"
    and h3: "json_dumps ex_env_readonly (extract_xpath_structure ex_env_readonly ex_page)
               = Some ''new''"
    and h4: "\<not> db_writable ex_env_readonly"
    and h5: "\<not> diff_raises ex_env_readonly ''u'' (ex_world [ex_row ''md5:<p>Hello</p>'' ''old''])
                 (md5_hexdigest ex_env_readonly ex_page)"
    by (simp_all add: ex_readonly_fields ex_page_facts ex_new_not_empty diff_raises_def
        ex_lookup_one)
  show ?thesis
    using store_failure_reported [OF h1 h2 h3 h4, where cfg = ex_cfg
        and w = "ex_world [ex_row ''md5:<p>Hello</p>'' ''old'']"] h5
    by (simp add: ex_world_fields)
qed

subsection \<open>A stored structure that does not decode\<close>

text \<open>
  Claim C4 fails for a corruption that leaves a text which still decodes: when the stored
  structure of the last record reads \<^verbatim>\<open>null\<close>, \<^verbatim>\<open>json.loads\<close> returns a value
  that is no dictionary, the handler for \<^verbatim>\<open>JSONDecodeError\<close> is not entered, and the
  \<^verbatim>\<open>AttributeError\<close> of \<^verbatim>\<open>compare_structures\<close> leaves \<open>scan_url\<close>: the scan
  raises and writes no record.
\<close>

theorem decodable_corruption_counterexample:
  "json_loads ex_env ''null'' = Some JsonOther
   \<and> scan_url ex_env ex_cfg ''u'' (ex_world [ex_row ''md5:<p>Hello</p>'' ''null'']) =
       (Inl AttributeError,
        \<lparr>scan_history = [ex_row ''md5:<p>Hello</p>'' ''null''],
         detected_changes = [],
         calls = [Fetched ''u'', Extracted, LookedUp ''u'', Compared]\<rparr>)"
  by (simp add: scan_url_def fetch_page_def ex_env_fields ex_page_facts ex_lookup_one
      get_last_scan_calls log_call_def Let_def)
     (simp add: ex_world_def)

text \<open>
  Claim C4, amended. For every scan whose last record has another content hash and a
  stored structure on which \<^verbatim>\<open>json.loads\<close> raises \<^verbatim>\<open>JSONDecodeError\<close>,
  \<open>scan_url\<close> catches the exception: it makes no diff, keeps the empty list of
  changes and sends no alert, and when the current structure is serialized and the store
  can be written it appends exactly one scan record, for the current structure and with 0
  changes, and returns \<open>False\<close>.
\<close>

theorem corrupt_history_is_baseline:
  assumes "session_get env url = Some current_html" "current_html \<noteq> []"
     "get_last_scan w url = Some (last_hash, last_structure_json)"
     "md5_hexdigest env current_html \<noteq> last_hash"
     "json_loads env last_structure_json = None"
     "json_dumps env (extract_xpath_structure env current_html) = Some serialized"
     "db_writable env"
  shows "scan_url env cfg url w =
     (Inr False,
      w\<lparr>scan_history := scan_history w @
           [\<lparr>sr_id = Suc (length (scan_history w)), sr_url = url,
             sr_scan_time = current_timestamp env,
             sr_html_hash = md5_hexdigest env current_html,
             sr_xpath_structure = serialized,
             sr_changes_detected = 0\<rparr>],
         calls := calls w @ [Fetched url, Extracted, LookedUp url, Saved url]\<rparr>)"
  using assms
  by (simp add: scan_url_def fetch_page_def save_scan_result_def Let_def log_call_def
      get_last_scan_calls)

text \<open>The same at the example page with a truncated stored structure.\<close>

theorem corrupt_history_is_baseline_witness:
  "scan_url ex_env ex_cfg ''u'' (ex_world [ex_row ''md5:<p>Hello</p>'' ''{trunc'']) =
     (Inr False,
      \<lparr>scan_history =
         [ex_row ''md5:<p>Hello</p>'' ''{trunc'',
          \<lparr>sr_id = 2, sr_url = ''u'', sr_scan_time = 9, sr_html_hash = ''md5:'' @ ex_page,
            sr_xpath_structure = ''new'', sr_changes_detected = 0\<rparr>],
       detected_changes = [],
       calls = [Fetched ''u'', Extracted, LookedUp ''u'', Saved ''u'']\<rparr>)"
proof -
  have h1: "session_get ex_env ''u'' = Some ex_page"
    and h2: "ex_page \<noteq> []"
    and h3: "get_last_scan (ex_world [ex_row ''md5:<p>Hello</p>'' ''{trunc'']) ''u''
               = Some (''md5:<p>Hello</p>'', ''{trunc'')"
    and h4: "md5_hexdigest ex_env ex_page \<noteq> ''md5:<p>Hello</p>''"
    and h5: "json_loads ex_env ''{trunc'' = None"
    and h6: "json_dumps ex_env (extract_xpath_structure ex_env ex_page) = Some ''new''"
    and h7: "db_writable ex_env"
    by (simp_all add: ex_env_fields ex_page_facts ex_lookup_one ex_extract ex_new_not_empty)
  show ?thesis
    using corrupt_history_is_baseline [OF h1 h2 h3 h4 h5 h6 h7, of ex_cfg]
    by (simp add: ex_env_fields ex_world_def)
qed

subsection \<open>An unchanged content hash\<close>

text \<open>
  Claim C5. For every scan in which the record that the lookup returns (the one with the
  greatest \<^verbatim>\<open>scan_time\<close>, the oldest of a tie) has the content hash of the text just
  fetched, \<open>compare_structures\<close> is not called, the list of changes is empty, and
  while the current structure is serialized and the store can be written exactly one scan
  record is appended, with 0 changes.
\<close>

theorem unchanged_hash_skips_diff:
  assumes "session_get env url = Some current_html" "current_html \<noteq> []"
     "get_last_scan w url = Some (last_hash, last_structure_json)"
     "md5_hexdigest env current_html = last_hash"
     "json_dumps env (extract_xpath_structure env current_html) = Some serialized"
     "db_writable env"
  shows "scan_url env cfg url w =
     (Inr False,
      w\<lparr>scan_history := scan_history w @
           [\<lparr>sr_id = Suc (length (scan_history w)), sr_url = url,
             sr_scan_time = current_timestamp env,
             sr_html_hash = md5_hexdigest env current_html,
             sr_xpath_structure = serialized,
             sr_changes_detected = 0\<rparr>],
         calls := calls w @ [Fetched url, Extracted, LookedUp url, Saved url]\<rparr>)
     \<and> Compared \<notin> set (new_calls env cfg url w)"
  using assms
  by (simp add: new_calls_def scan_url_def fetch_page_def save_scan_result_def Let_def log_call_def
      get_last_scan_calls)

text \<open>
  The same at two records of one second, the older with the content now fetched and the
  younger with another content: the lookup returns the older one, and no diff is made.
\<close>

theorem unchanged_hash_skips_diff_witness:
  "scan_url ex_env ex_cfg ''u''
      (ex_world [ex_row (''md5:'' @ ex_page) ''new'', ex_second_row ''md5:<p>Hello</p>'' ''old'']) =
     (Inr False,
      \<lparr>scan_history =
         [ex_row (''md5:'' @ ex_page) ''new'', ex_second_row ''md5:<p>Hello</p>'' ''old'',
          \<lparr>sr_id = 3, sr_url = ''u'', sr_scan_time = 9, sr_html_hash = ''md5:'' @ ex_page,
            sr_xpath_structure = ''new'', sr_changes_detected = 0\<rparr>],
       detected_changes = [],
       calls = [Fetched ''u'', Extracted, LookedUp ''u'', Saved ''u'']\<rparr>)
   \<and> Compared \<notin> set (new_calls ex_env ex_cfg ''u''
        (ex_world [ex_row (''md5:'' @ ex_page) ''new'', ex_second_row ''md5:<p>Hello</p>'' ''old'']))"
proof -
  have h1: "session_get ex_env ''u'' = Some ex_page"
    and h2: "ex_page \<noteq> []"
    and h3: "get_last_scan
               (ex_world [ex_row (''md5:'' @ ex_page) ''new'',
                          ex_second_row ''md5:<p>Hello</p>'' ''old'']) ''u''
               = Some (''md5:'' @ ex_page, ''new'')"
    and h4: "md5_hexdigest ex_env ex_page = ''md5:'' @ ex_page"
    and h5: "json_dumps ex_env (extract_xpath_structure ex_env ex_page) = Some ''new''"
    and h6: "db_writable ex_env"
    by (simp_all add: ex_env_fields ex_page_facts ex_lookup_tie ex_extract ex_new_not_empty)
  show ?thesis
    using unchanged_hash_skips_diff [OF h1 h2 h3 h4 h5 h6, of ex_cfg]
    by (simp add: ex_env_fields ex_world_def)
qed

subsection \<open>An empty response body\<close>

text \<open>
  Claim C10. When the fetch succeeds with an empty string, \<open>scan_url\<close> returns
  \<open>False\<close> right after the fetch: no structure is computed, no record is written and
  no alert is sent. This is the result, and the state, of the same scan with a fetch that
  fails.
\<close>

theorem empty_body_like_fetch_failure:
  assumes "session_get env url = Some []"
  shows "scan_url env cfg url w = (Inr False, w\<lparr>calls := calls w @ [Fetched url]\<rparr>)
       \<and> scan_url env cfg url w
           = scan_url (env\<lparr>session_get := (session_get env)(url := None)\<rparr>) cfg url w"
  using assms by (simp add: scan_url_def fetch_page_def log_call_def)

text \<open>The same at a server that answers the example URL with an empty body.\<close>

theorem empty_body_like_fetch_failure_witness:
  "scan_url ex_env_empty_body ex_cfg ''u'' (ex_world [ex_row ''md5:<p>Hello</p>'' ''old'']) =
     (Inr False,
      \<lparr>scan_history = [ex_row ''md5:<p>Hello</p>'' ''old''], detected_changes = [],
       calls = [Fetched ''u'']\<rparr>)
   \<and> scan_url ex_env_empty_body ex_cfg ''u'' (ex_world [ex_row ''md5:<p>Hello</p>'' ''old''])
       = scan_url (ex_env_empty_body\<lparr>session_get := (session_get ex_env_empty_body)(''u'' := None)\<rparr>)
           ex_cfg ''u'' (ex_world [ex_row ''md5:<p>Hello</p>'' ''old''])"
proof -
  have h: "session_get ex_env_empty_body ''u'' = Some []"
    by (simp add: ex_env_empty_body_def)
  have e: "(ex_world [ex_row ''md5:<p>Hello</p>'' ''old''])
             \<lparr>calls := calls (ex_world [ex_row ''md5:<p>Hello</p>'' ''old'']) @ [Fetched ''u'']\<rparr>
           = \<lparr>scan_history = [ex_row ''md5:<p>Hello</p>'' ''old''], detected_changes = [],
              calls = [Fetched ''u'']\<rparr>"
    by (simp add: ex_world_def)
  show ?thesis
    using empty_body_like_fetch_failure [OF h, of ex_cfg "ex_world [ex_row ''md5:<p>Hello</p>'' ''old'']"]
    unfolding e .
qed

end
